theory Spec2Isabelle
  imports Main "HOL-Library.Signed_Division"
begin

section \<open>JavaScript values used by the script\<close>

text \<open>
  A time value (\<^verbatim>\<open>Date.prototype.getTime\<close>) is either an integral number of
  milliseconds or \<^verbatim>\<open>NaN\<close> (an invalid date). The script only adds, subtracts,
  compares, takes remainders and floors quotients of such values, so a number is
  modelled as \<open>NaN\<close> or an integer. Integer arithmetic is exact here; it agrees
  with the double arithmetic of the script as long as every intermediate value
  stays below \<open>2 ^ 53\<close> in magnitude, which holds for every pair of instants less
  than about 285000 years apart.
\<close>

datatype number = NaN | Num int

fun js_add :: "number \<Rightarrow> number \<Rightarrow> number" where
  "js_add (Num a) (Num b) = Num (a + b)"
| "js_add _ _ = NaN"

fun js_sub :: "number \<Rightarrow> number \<Rightarrow> number" where
  "js_sub (Num a) (Num b) = Num (a - b)"
| "js_sub _ _ = NaN"

text \<open>Every comparison with \<open>NaN\<close> is false.\<close>

fun js_lt :: "number \<Rightarrow> number \<Rightarrow> bool" where
  "js_lt (Num a) (Num b) = (a < b)"
| "js_lt _ _ = False"

fun js_le :: "number \<Rightarrow> number \<Rightarrow> bool" where
  "js_le (Num a) (Num b) = (a \<le> b)"
| "js_le _ _ = False"

fun js_gt :: "number \<Rightarrow> number \<Rightarrow> bool" where
  "js_gt (Num a) (Num b) = (a > b)"
| "js_gt _ _ = False"

fun js_ge :: "number \<Rightarrow> number \<Rightarrow> bool" where
  "js_ge (Num a) (Num b) = (a \<ge> b)"
| "js_ge _ _ = False"

text \<open>
  \<^verbatim>\<open>a % c\<close> truncates towards zero (the result has the sign of the dividend);
  \<^verbatim>\<open>Math.floor(a / c)\<close> is the floor of the exact quotient. Every divisor in the
  script is a positive constant, so infinities do not arise.
\<close>

fun js_rem :: "number \<Rightarrow> int \<Rightarrow> number" where
  "js_rem (Num a) c = Num (a smod c)"
| "js_rem NaN c = NaN"

fun js_floor_div :: "number \<Rightarrow> int \<Rightarrow> number" where
  "js_floor_div (Num a) c = Num (a div c)"
| "js_floor_div NaN c = NaN"

text \<open>\<^verbatim>\<open>String(num)\<close> for an integral number or \<open>NaN\<close>, in decimal.\<close>

fun dec :: "nat \<Rightarrow> string" where
  "dec n = (if n < 10 then [char_of (48 + n)]
            else dec (n div 10) @ [char_of (48 + n mod 10)])"

declare dec.simps [simp del]

fun js_String :: "number \<Rightarrow> string" where
  "js_String NaN = ''NaN''"
| "js_String (Num n) = (if n < 0 then ''-'' @ dec (nat (- n)) else dec (nat n))"

text \<open>\<^verbatim>\<open>s.padStart(2, '0')\<close>\<close>

definition padStart2 :: "string \<Rightarrow> string" where
  "padStart2 s = replicate (2 - length s) (CHR ''0'') @ s"

section \<open>Configuration\<close>

definition LIVE_THRESHOLD_MS :: int where
  "LIVE_THRESHOLD_MS = 3 * 60 * 1000"

definition LIVE_DURATION_MS :: int where
  "LIVE_DURATION_MS = 6 * 60 * 60 * 1000"

section \<open>Countdown logic: \<^verbatim>\<open>getEventStatus\<close>\<close>

text \<open>
  The result object \<^verbatim>\<open>{ status, timerText }\<close>. The status is one of the
  JavaScript strings the function assigns; letters outside ASCII in the display
  texts are written as their UTF-8 bytes.
\<close>

record event_status =
  status :: string
  timerText :: string

definition text_passed :: string where
  "text_passed = ''U'' @ [CHR 0xC5, CHR 0xBE] @ '' prebehlo''"

definition text_live :: string where
  "text_live = ''Na'' @ [CHR 0xC5, CHR 0xBE] @ ''ivo''"

definition text_remaining :: string where
  "text_remaining = ''Ost'' @ [CHR 0xC3, CHR 0xA1] @ ''va: ''"

definition span_open :: string where
  \<open>span_open = ''<span class="time-value event">''\<close>

text \<open>\<^verbatim>\<open>const pad = (num) => String(num).padStart(2, '0')\<close>\<close>

definition pad :: "number \<Rightarrow> string" where
  "pad num = padStart2 (js_String num)"

text \<open>
  The four constants of the upcoming branch (\<^verbatim>\<open>days\<close>, \<^verbatim>\<open>hours\<close>,
  \<^verbatim>\<open>minutes\<close>, \<^verbatim>\<open>seconds\<close>), computed from \<^verbatim>\<open>distance\<close>.
\<close>

definition remaining_parts :: "number \<Rightarrow> number \<times> number \<times> number \<times> number" where
  "remaining_parts distance =
     (let days = js_floor_div distance (1000 * 60 * 60 * 24);
          hours = js_floor_div (js_rem distance (1000 * 60 * 60 * 24)) (1000 * 60 * 60);
          minutes = js_floor_div (js_rem distance (1000 * 60 * 60)) (1000 * 60);
          seconds = js_floor_div (js_rem distance (1000 * 60)) 1000
      in (days, hours, minutes, seconds))"

text \<open>The two assignments to \<^verbatim>\<open>timerText\<close> in the upcoming branch.\<close>

definition countdown_text :: "number \<times> number \<times> number \<times> number \<Rightarrow> string" where
  "countdown_text p =
     (case p of (days, hours, minutes, seconds) \<Rightarrow>
        (if js_gt days (Num 0)
         then text_remaining @ span_open @ pad days @ '':</span>''
         else text_remaining)
        @ span_open @ pad hours @ '':'' @ pad minutes @ '':'' @ pad seconds @ ''</span>'')"

text \<open>
  \<open>Date_getTime s\<close> stands for \<^verbatim>\<open>new Date(s).getTime()\<close>, the platform's date
  parser (\<open>NaN\<close> for a string it cannot parse); \<open>clock\<close> is the value of
  \<^verbatim>\<open>new Date().getTime()\<close> read by this call, always a finite number.
\<close>

definition getEventStatus :: "(string \<Rightarrow> number) \<Rightarrow> int \<Rightarrow> string \<Rightarrow> event_status" where
  "getEventStatus Date_getTime clock eventISODate =
     (let now = Num clock;
          eventTime = Date_getTime eventISODate;
          distanceToStart = js_sub eventTime now;
          liveEndTime = js_add eventTime (Num LIVE_DURATION_MS);
          distanceToLiveEnd = js_sub liveEndTime now
      in if js_lt distanceToLiveEnd (Num 0) then
           \<lparr>status = ''passed'', timerText = text_passed\<rparr>
         else if js_le distanceToStart (Num LIVE_THRESHOLD_MS) then
           \<lparr>status = ''live'', timerText = text_live\<rparr>
         else
           \<lparr>status = ''upcoming'',
            timerText = countdown_text (remaining_parts distanceToStart)\<rparr>)"

text \<open>The order \<^verbatim>\<open>upcoming\<close> \<open>\<rightarrow>\<close> \<^verbatim>\<open>live\<close> \<open>\<rightarrow>\<close> \<^verbatim>\<open>passed\<close> of the state machine.\<close>

definition status_rank :: "string \<Rightarrow> nat" where
  "status_rank s = (if s = ''upcoming'' then 0 else if s = ''live'' then 1 else 2)"

section \<open>The page\<close>

text \<open>
  The part of the document the script reads and writes. The markup is not part of
  the script; the model takes a page in which accordion items are not nested, each
  item holds its own status boxes, a header whose \<^verbatim>\<open>svg\<close> icon is the first
  \<^verbatim>\<open>svg\<close> of the item, and a content element, and the countdown elements found
  by id are elements of their own. An item is referred to by its position in
  \<^verbatim>\<open>document.querySelectorAll('.accordion-item')\<close> (document order).
\<close>

record status_box =
  innerHTML :: string
  classList :: "string list"

record accordion_item =
  eventDate :: "string option"
  isLive :: "string option"
  statusBoxes :: "status_box list"
  active :: bool
  maxHeight :: "string option"
  scrollHeight :: int
  rotate_180 :: bool

text \<open>
  \<open>eventDate\<close> and \<open>isLive\<close> are the entries of \<^verbatim>\<open>item.dataset\<close> (\<open>None\<close> when
  the attribute is absent, i.e. \<^verbatim>\<open>undefined\<close>); \<open>active\<close> says whether the item's
  class list contains \<^verbatim>\<open>active\<close>; \<open>maxHeight\<close> is
  \<^verbatim>\<open>content.style.maxHeight\<close> (\<open>None\<close> after it is set to \<^verbatim>\<open>null\<close>);
  \<open>rotate_180\<close> says whether the icon's class list contains \<^verbatim>\<open>rotate-180\<close>.
  \<open>countdowns\<close> lists the elements that have an id, with their \<^verbatim>\<open>innerHTML\<close>, in
  document order; \<open>scrolled\<close> records the calls of \<^verbatim>\<open>scrollIntoView\<close>.
\<close>

record document =
  items :: "accordion_item list"
  countdowns :: "(string \<times> string) list"
  scrolled :: "nat list"

definition classList_remove :: "string list \<Rightarrow> string list \<Rightarrow> string list" where
  "classList_remove names cl = filter (\<lambda>c. c \<notin> set names) cl"

definition classList_add :: "string \<Rightarrow> string list \<Rightarrow> string list" where
  "classList_add name cl = (if name \<in> set cl then cl else cl @ [name])"

text \<open>\<^verbatim>\<open>document.getElementById(id)\<close> is the first element with that id.\<close>

definition getElementById :: "(string \<times> string) list \<Rightarrow> string \<Rightarrow> string option" where
  "getElementById els k = map_of els k"

fun set_innerHTML :: "string \<Rightarrow> string \<Rightarrow> (string \<times> string) list \<Rightarrow> (string \<times> string) list" where
  "set_innerHTML k v [] = []"
| "set_innerHTML k v ((k', x) # els) =
     (if k' = k then (k', v) # els else (k', x) # set_innerHTML k v els)"

text \<open>\<^verbatim>\<open>eventDate.replace(/[^a-zA-Z0-9]/g, '-')\<close>, for a date string of ASCII characters.\<close>

definition alnum :: "char \<Rightarrow> bool" where
  "alnum c = (c \<in> set ''abcdefghijklmnopqrstuvwxyzABCDEFGHIJKLMNOPQRSTUVWXYZ0123456789'')"

definition countdown_id :: "string \<Rightarrow> string" where
  "countdown_id date = ''countdown-'' @ map (\<lambda>c. if alnum c then c else CHR ''-'') date"

section \<open>\<^verbatim>\<open>updateAccordionHeaders\<close>\<close>

text \<open>The test of line 118, on the numbers \<^verbatim>\<open>eventTime\<close> and \<^verbatim>\<open>now\<close>.\<close>

definition isTemporarilyLive :: "number \<Rightarrow> number \<Rightarrow> bool" where
  "isTemporarilyLive eventTime now =
     (js_le (js_sub eventTime now) (Num LIVE_THRESHOLD_MS) \<and>
      js_ge (js_add eventTime (Num LIVE_DURATION_MS)) now)"

text \<open>The body of \<^verbatim>\<open>statusBoxes.forEach\<close>.\<close>

definition update_statusBox :: "event_status \<Rightarrow> status_box \<Rightarrow> status_box" where
  "update_statusBox r statusBox =
     (let b1 = statusBox\<lparr>innerHTML :=
                 (if status r = ''passed'' then text_passed
                  else if status r = ''live'' then text_live else timerText r)\<rparr>;
          b2 = b1\<lparr>classList :=
                 classList_remove [''live_event'', ''upcoming_event'', ''passed_event'']
                   (classList b1)\<rparr>
      in if status r = ''live'' then b2\<lparr>classList := classList_add ''live_event'' (classList b2)\<rparr>
         else if status r = ''passed'' then
           b2\<lparr>classList := classList_add ''passed_event'' (classList b2)\<rparr>
         else b2\<lparr>classList := classList_add ''upcoming_event'' (classList b2)\<rparr>)"

text \<open>The update of the separate countdown element, when there is one.\<close>

definition update_countdown :: "event_status \<Rightarrow> string \<Rightarrow> (string \<times> string) list \<Rightarrow> (string \<times> string) list" where
  "update_countdown r date els =
     (case getElementById els (countdown_id date) of
        None \<Rightarrow> els
      | Some _ \<Rightarrow>
          if status r = ''live'' then set_innerHTML (countdown_id date) (text_live @ ''!'') els
          else if status r = ''upcoming'' then
            set_innerHTML (countdown_id date) (timerText r) els
          else els)"

text \<open>
  The callback of \<^verbatim>\<open>querySelectorAll('.accordion-item').forEach\<close>, for the item at
  position \<open>i\<close>. The state threaded through the loop is \<^verbatim>\<open>firstLiveEventItem\<close>
  and the countdown elements. \<open>now\<close> is the clock value read at the start of
  \<^verbatim>\<open>updateAccordionHeaders\<close>, \<open>clock\<close> the one read by this item's call of
  \<^verbatim>\<open>getEventStatus\<close>. The guard \<^verbatim>\<open>!eventDate || !statusBoxes\<close> is true exactly
  when the attribute is absent or empty: a \<^verbatim>\<open>NodeList\<close> is never falsy.
\<close>

definition forEach_callback ::
  "(string \<Rightarrow> number) \<Rightarrow> int \<Rightarrow> int \<Rightarrow> nat \<Rightarrow> accordion_item \<Rightarrow>
   nat option \<times> (string \<times> string) list \<Rightarrow>
   accordion_item \<times> nat option \<times> (string \<times> string) list" where
  "forEach_callback Date_getTime now clock i item st =
     (case st of (firstLiveEventItem, els) \<Rightarrow>
        (case eventDate item of
           None \<Rightarrow> (item, st)
         | Some d \<Rightarrow>
             if d = [] then (item, st)
             else
               let eventTime = Date_getTime d;
                   r = getEventStatus Date_getTime clock d;
                   item1 = item\<lparr>isLive :=
                     Some (if isTemporarilyLive eventTime (Num now) then ''true'' else ''false'')\<rparr>;
                   first = (if status r = ''live'' \<and> firstLiveEventItem = None then Some i
                            else firstLiveEventItem);
                   item2 = item1\<lparr>statusBoxes := map (update_statusBox r) (statusBoxes item1)\<rparr>
               in (item2, first, update_countdown r d els)))"

text \<open>The loop over the items, in document order; \<open>clock i\<close> is the reading for item \<open>i\<close>.\<close>

fun forEach_items ::
  "(string \<Rightarrow> number) \<Rightarrow> int \<Rightarrow> (nat \<Rightarrow> int) \<Rightarrow> nat \<Rightarrow> accordion_item list \<Rightarrow>
   nat option \<times> (string \<times> string) list \<Rightarrow>
   accordion_item list \<times> nat option \<times> (string \<times> string) list" where
  "forEach_items Date_getTime now clock i [] st = ([], st)"
| "forEach_items Date_getTime now clock i (item # rest) st =
     (case forEach_callback Date_getTime now (clock i) i item st of
        (item', st') \<Rightarrow>
          (case forEach_items Date_getTime now clock (Suc i) rest st' of
             (rest', st'') \<Rightarrow> (item' # rest', st'')))"

text \<open>The function returns \<^verbatim>\<open>firstLiveEventItem\<close> (\<open>None\<close> for \<^verbatim>\<open>null\<close>) and leaves the page updated.\<close>

definition updateAccordionHeaders ::
  "(string \<Rightarrow> number) \<Rightarrow> int \<Rightarrow> (nat \<Rightarrow> int) \<Rightarrow> document \<Rightarrow> nat option \<times> document" where
  "updateAccordionHeaders Date_getTime now clock doc =
     (case forEach_items Date_getTime now clock 0 (items doc) (None, countdowns doc) of
        (items', firstLiveEventItem, els) \<Rightarrow>
          (firstLiveEventItem, doc\<lparr>items := items', countdowns := els\<rparr>))"

section \<open>Accordion logic\<close>

text \<open>What the script does to an item it closes.\<close>

definition close_item :: "accordion_item \<Rightarrow> accordion_item" where
  "close_item item = item\<lparr>active := False, maxHeight := None, rotate_180 := False\<rparr>"

text \<open>
  \<^verbatim>\<open>toggleAccordion(item, forceOpen)\<close>, for the item at position \<open>i\<close> of the page (an
  element of the page, so \<open>i\<close> is below the number of items).
\<close>

definition toggleAccordion :: "document \<Rightarrow> nat \<Rightarrow> bool \<Rightarrow> document" where
  "toggleAccordion doc i forceOpen =
     (let isExpanded = (if forceOpen then False else active (items doc ! i));
          doc1 = (if \<not> isExpanded \<or> forceOpen
                  then doc\<lparr>items := map (\<lambda>a. if active a then close_item a else a) (items doc)\<rparr>
                  else doc);
          item = items doc1 ! i
      in if forceOpen \<or> \<not> isExpanded then
           let opened = item\<lparr>active := True,
                            maxHeight := Some (js_String (Num (scrollHeight item + 30)) @ ''px''),
                            rotate_180 := True\<rparr>;
               doc2 = doc1\<lparr>items := (items doc1)[i := opened]\<rparr>
           in if forceOpen then doc2\<lparr>scrolled := scrolled doc2 @ [i]\<rparr> else doc2
         else doc1\<lparr>items := (items doc1)[i := close_item item]\<rparr>)"

section \<open>Initialisation\<close>

text \<open>
  Steps 3 and 4 of the \<^verbatim>\<open>DOMContentLoaded\<close> handler: the first run of
  \<^verbatim>\<open>updateAccordionHeaders\<close> and, 100 ms later, the forced opening of the item
  it returned. (Steps 1 and 2 start the clocks and register the click handlers.)
\<close>

definition onLoad ::
  "(string \<Rightarrow> number) \<Rightarrow> int \<Rightarrow> (nat \<Rightarrow> int) \<Rightarrow> document \<Rightarrow> document" where
  "onLoad Date_getTime now clock doc =
     (case updateAccordionHeaders Date_getTime now clock doc of
        (initialLiveEvent, doc1) \<Rightarrow>
          (case initialLiveEvent of
             None \<Rightarrow> doc1
           | Some i \<Rightarrow> toggleAccordion doc1 i True))"

text \<open>
  An event is classified live on a tick when its item is not skipped and its call
  of \<^verbatim>\<open>getEventStatus\<close> returns \<^verbatim>\<open>live\<close>.
\<close>

definition classified_live :: "(string \<Rightarrow> number) \<Rightarrow> int \<Rightarrow> accordion_item \<Rightarrow> bool" where
  "classified_live Date_getTime clock item =
     (case eventDate item of
        None \<Rightarrow> False
      | Some d \<Rightarrow> d \<noteq> [] \<and> status (getEventStatus Date_getTime clock d) = ''live'')"

section \<open>Sample inputs\<close>

text \<open>
  A date parser that knows one event, starting 2025-11-15 09:00:00 UTC, and
  returns \<open>NaN\<close> for every other string; the instances below evaluate the
  script on it.
\<close>

definition sample_date :: string where
  "sample_date = ''2025-11-15T09:00:00Z''"

definition sample_start :: int where
  "sample_start = 1763197200000"

definition sample_Date_getTime :: "string \<Rightarrow> number" where
  "sample_Date_getTime s = (if s = sample_date then Num sample_start else NaN)"

text \<open>
  A page with three items: the first has no \<^verbatim>\<open>data-event-date\<close> attribute, the
  other two carry the sample date. A second page has one item whose date string
  the parser rejects. The clock reads one second after the sample start throughout.
\<close>

definition sample_box :: status_box where
  "sample_box = \<lparr>innerHTML = [], classList = [''status-box'']\<rparr>"

definition sample_item :: "string option \<Rightarrow> accordion_item" where
  "sample_item d = \<lparr>eventDate = d, isLive = None, statusBoxes = [sample_box], active = False,
     maxHeight = None, scrollHeight = 120, rotate_180 = False\<rparr>"

definition sample_page :: document where
  "sample_page = \<lparr>items = [sample_item None, sample_item (Some sample_date),
       sample_item (Some sample_date)],
     countdowns = [(countdown_id sample_date, [])], scrolled = []\<rparr>"

definition unparseable_page :: document where
  "unparseable_page = \<lparr>items = [sample_item (Some ''soon'')], countdowns = [], scrolled = []\<rparr>"

definition sample_clock :: "nat \<Rightarrow> int" where
  "sample_clock i = sample_start + 1000"

text \<open>
  A clock that has reached the live threshold, three minutes before the sample
  start, when the items call \<^verbatim>\<open>getEventStatus\<close>.
\<close>

definition threshold_clock :: "nat \<Rightarrow> int" where
  "threshold_clock i = sample_start - LIVE_THRESHOLD_MS"


section \<open>Arithmetic of the countdown\<close>

lemma smod_nonneg: "0 \<le> (a::int) \<Longrightarrow> a smod b = a mod \<bar>b\<bar>"
  by (cases "a = 0") (simp_all add: smod_int_alt_def)

lemma mod_div_int:
  fixes x :: int
  shows "0 < a \<Longrightarrow> 0 \<le> b \<Longrightarrow> x mod (a * b) div a = x div a mod b"
  by (simp add: zmod_zmult2_eq)

text \<open>Each component, expressed through the whole seconds \<open>x div 1000\<close>.\<close>

lemma parts_in_seconds:
  fixes x :: int
  shows "x div 86400000 = x div 1000 div 86400"
    and "x mod 86400000 div 3600000 = x div 1000 div 3600 mod 24"
    and "x mod 3600000 div 60000 = x div 1000 div 60 mod 60"
    and "x mod 60000 div 1000 = x div 1000 mod 60"
proof -
  show "x div 86400000 = x div 1000 div 86400"
    using zdiv_zmult2_eq [of 86400 x 1000] by simp
  have "x mod (3600000 * 24) div 3600000 = x div 3600000 mod 24"
    by (rule mod_div_int) simp_all
  moreover have "x div 3600000 = x div 1000 div 3600"
    using zdiv_zmult2_eq [of 3600 x 1000] by simp
  ultimately show "x mod 86400000 div 3600000 = x div 1000 div 3600 mod 24"
    by simp
  have "x mod (60000 * 60) div 60000 = x div 60000 mod 60"
    by (rule mod_div_int) simp_all
  moreover have "x div 60000 = x div 1000 div 60"
    using zdiv_zmult2_eq [of 60 x 1000] by simp
  ultimately show "x mod 3600000 div 60000 = x div 1000 div 60 mod 60"
    by simp
  have "x mod (1000 * 60) div 1000 = x div 1000 mod 60"
    by (rule mod_div_int) simp_all
  then show "x mod 60000 div 1000 = x div 1000 mod 60"
    by simp
qed

lemma reassemble_seconds:
  fixes y :: int
  shows "y div 86400 * 86400 + y div 3600 mod 24 * 3600 + y div 60 mod 60 * 60 + y mod 60 = y"
proof -
  define a where "a = y div 60"
  define b where "b = a div 60"
  define c where "c = b div 24"
  have ab: "y div 3600 = b"
    using zdiv_zmult2_eq [of 60 y 60] by (simp add: a_def b_def)
  have abc: "y div 86400 = c"
    using zdiv_zmult2_eq [of 24 y 3600] ab by (simp add: c_def)
  have r0: "y mod 60 = y - a * 60"
    unfolding a_def by (rule minus_div_mult_eq_mod [symmetric])
  have r1: "a mod 60 = a - b * 60"
    unfolding b_def by (rule minus_div_mult_eq_mod [symmetric])
  have r2: "b mod 24 = b - c * 24"
    unfolding c_def by (rule minus_div_mult_eq_mod [symmetric])
  have "c * 86400 + (b - c * 24) * 3600 + (a - b * 60) * 60 + (y - a * 60) = y"
    by (simp add: algebra_simps)
  then show ?thesis
    unfolding ab abc a_def [symmetric] r0 r1 r2 .
qed

lemma reassemble:
  fixes x :: int
  shows "x div 86400000 * 86400 + x mod 86400000 div 3600000 * 3600
       + x mod 3600000 div 60000 * 60 + x mod 60000 div 1000 = x div 1000"
  by (simp only: parts_in_seconds reassemble_seconds)

lemma parts_bounds:
  fixes x :: int
  shows "0 \<le> x mod 86400000 div 3600000" "x mod 86400000 div 3600000 \<le> 23"
    and "0 \<le> x mod 3600000 div 60000" "x mod 3600000 div 60000 \<le> 59"
    and "0 \<le> x mod 60000 div 1000" "x mod 60000 div 1000 \<le> 59"
proof -
  have m24: "0 \<le> z mod 24 \<and> z mod 24 \<le> 23" for z :: int
    using pos_mod_sign [of 24 z] pos_mod_bound [of 24 z] by simp
  have m60: "0 \<le> z mod 60 \<and> z mod 60 \<le> 59" for z :: int
    using pos_mod_sign [of 60 z] pos_mod_bound [of 60 z] by simp
  show "0 \<le> x mod 86400000 div 3600000" "x mod 86400000 div 3600000 \<le> 23"
    unfolding parts_in_seconds using m24 by blast+
  show "0 \<le> x mod 3600000 div 60000" "x mod 3600000 div 60000 \<le> 59"
    unfolding parts_in_seconds using m60 by blast+
  show "0 \<le> x mod 60000 div 1000" "x mod 60000 div 1000 \<le> 59"
    unfolding parts_in_seconds using m60 by blast+
qed

lemma remaining_parts_Num:
  "0 \<le> x \<Longrightarrow> remaining_parts (Num x) =
     (Num (x div 86400000), Num (x mod 86400000 div 3600000),
      Num (x mod 3600000 div 60000), Num (x mod 60000 div 1000))"
  by (simp add: remaining_parts_def smod_nonneg)

section \<open>The status classifier\<close>

text \<open>The branch taken by \<^verbatim>\<open>getEventStatus\<close>, read off its two tests.\<close>

lemma status_getEventStatus:
  "status (getEventStatus P now d) =
     (case P d of NaN \<Rightarrow> ''upcoming''
      | Num e \<Rightarrow> if e + LIVE_DURATION_MS - now < 0 then ''passed''
                 else if e - now \<le> LIVE_THRESHOLD_MS then ''live'' else ''upcoming'')"
  by (simp add: getEventStatus_def Let_def split: number.splits)

lemma sample_parses: "sample_Date_getTime sample_date = Num sample_start"
  by (simp add: sample_Date_getTime_def)

text \<open>
  C1. For every start instant and every current instant, \<^verbatim>\<open>getEventStatus\<close>
  returns a status, and that status is exactly one of \<^verbatim>\<open>upcoming\<close>,
  \<^verbatim>\<open>live\<close> and \<^verbatim>\<open>passed\<close>. (It holds for an unparseable date as well.)
\<close>

theorem getEventStatus_total:
  "(status (getEventStatus P now d) = ''upcoming'' \<and>
      status (getEventStatus P now d) \<noteq> ''live'' \<and>
      status (getEventStatus P now d) \<noteq> ''passed'') \<or>
   (status (getEventStatus P now d) \<noteq> ''upcoming'' \<and>
      status (getEventStatus P now d) = ''live'' \<and>
      status (getEventStatus P now d) \<noteq> ''passed'') \<or>
   (status (getEventStatus P now d) \<noteq> ''upcoming'' \<and>
      status (getEventStatus P now d) \<noteq> ''live'' \<and>
      status (getEventStatus P now d) = ''passed'')"
  by (simp add: status_getEventStatus split: number.splits)

text \<open>One minute before the sample event starts, the one status is \<^verbatim>\<open>live\<close>.\<close>

theorem getEventStatus_total_witness:
  "status (getEventStatus sample_Date_getTime (sample_start - 60000) sample_date) = ''live''"
  using getEventStatus_total [of sample_Date_getTime "sample_start - 60000" sample_date]
  by (simp add: status_getEventStatus sample_parses LIVE_DURATION_MS_def LIVE_THRESHOLD_MS_def)

text \<open>
  C2 as stated fails at the end of the live window: at
  \<open>now = startInstant + LIVE_DURATION_MS\<close> exactly, \<^verbatim>\<open>distanceToLiveEnd\<close> is
  \<open>0\<close>, the strict test \<^verbatim>\<open>distanceToLiveEnd < 0\<close> is false, and the event is
  still \<^verbatim>\<open>live\<close>.
\<close>

theorem passed_at_window_end_counterexample:
  "sample_start + LIVE_DURATION_MS \<ge> sample_start + LIVE_DURATION_MS \<and>
   sample_Date_getTime sample_date = Num sample_start \<and>
   status (getEventStatus sample_Date_getTime (sample_start + LIVE_DURATION_MS) sample_date)
     \<noteq> ''passed''"
  by (simp add: status_getEventStatus sample_parses LIVE_DURATION_MS_def LIVE_THRESHOLD_MS_def)

text \<open>
  C2 (amended). If \<open>now > startInstant + LIVE_DURATION_MS\<close>, the status is
  \<^verbatim>\<open>passed\<close>, whatever the distance to the start is.
\<close>

theorem passed_after_window:
  "P d = Num e \<Longrightarrow> now > e + LIVE_DURATION_MS \<Longrightarrow>
   status (getEventStatus P now d) = ''passed''"
  by (simp add: status_getEventStatus)

theorem passed_after_window_witness:
  "sample_Date_getTime sample_date = Num sample_start \<and>
   sample_start + LIVE_DURATION_MS + 1 > sample_start + LIVE_DURATION_MS \<and>
   status (getEventStatus sample_Date_getTime (sample_start + LIVE_DURATION_MS + 1) sample_date)
     = ''passed''"
  using passed_after_window [of sample_Date_getTime sample_date sample_start
      "sample_start + LIVE_DURATION_MS + 1"]
  by (simp add: sample_parses)

text \<open>
  C3. If \<open>startInstant - now \<le> LIVE_THRESHOLD_MS\<close> (3 minutes) and
  \<open>now < startInstant + LIVE_DURATION_MS\<close> (6 hours), the status is \<^verbatim>\<open>live\<close>.
\<close>

theorem live_in_window:
  "P d = Num e \<Longrightarrow> e - now \<le> LIVE_THRESHOLD_MS \<Longrightarrow> now < e + LIVE_DURATION_MS \<Longrightarrow>
   status (getEventStatus P now d) = ''live''"
  by (simp add: status_getEventStatus)

theorem live_in_window_witness:
  "sample_Date_getTime sample_date = Num sample_start \<and>
   sample_start - (sample_start + 18000000) \<le> LIVE_THRESHOLD_MS \<and>
   sample_start + 18000000 < sample_start + LIVE_DURATION_MS \<and>
   status (getEventStatus sample_Date_getTime (sample_start + 18000000) sample_date) = ''live''"
  using live_in_window [of sample_Date_getTime sample_date sample_start
      "sample_start + 18000000"]
  by (simp add: sample_parses LIVE_DURATION_MS_def LIVE_THRESHOLD_MS_def)

text \<open>
  C4. The boundaries: at \<open>now = startInstant - LIVE_THRESHOLD_MS\<close> the status is
  \<^verbatim>\<open>live\<close>; at \<open>now = startInstant + LIVE_DURATION_MS\<close> it is not
  \<^verbatim>\<open>passed\<close>; one millisecond later it is \<^verbatim>\<open>passed\<close>.
\<close>

theorem boundaries:
  "P d = Num e \<Longrightarrow>
   status (getEventStatus P (e - LIVE_THRESHOLD_MS) d) = ''live'' \<and>
   status (getEventStatus P (e + LIVE_DURATION_MS) d) \<noteq> ''passed'' \<and>
   status (getEventStatus P (e + LIVE_DURATION_MS + 1) d) = ''passed''"
  by (simp add: status_getEventStatus LIVE_DURATION_MS_def LIVE_THRESHOLD_MS_def)

theorem boundaries_witness:
  "sample_Date_getTime sample_date = Num sample_start \<and>
   status (getEventStatus sample_Date_getTime (sample_start - LIVE_THRESHOLD_MS) sample_date)
     = ''live'' \<and>
   status (getEventStatus sample_Date_getTime (sample_start + LIVE_DURATION_MS) sample_date)
     \<noteq> ''passed'' \<and>
   status (getEventStatus sample_Date_getTime (sample_start + LIVE_DURATION_MS + 1) sample_date)
     = ''passed''"
  using boundaries [of sample_Date_getTime sample_date sample_start]
  by (simp add: sample_parses)

text \<open>
  C5. Whenever the status is \<^verbatim>\<open>upcoming\<close> for a parseable start instant, the
  start is more than \<open>LIVE_THRESHOLD_MS\<close> away and the live window has not
  elapsed; the countdown text is rendered from days, hours, minutes and seconds
  obtained by floor division of the millisecond distance, with hours in 0..23,
  minutes and seconds in 0..59, and
  \<open>days * 86400 + hours * 3600 + minutes * 60 + seconds\<close> is the floor of
  \<open>(startInstant - now) / 1000\<close>.
\<close>

theorem upcoming_breakdown:
  assumes "P d = Num e" and "status (getEventStatus P now d) = ''upcoming''"
  shows "e - now > LIVE_THRESHOLD_MS \<and> now \<le> e + LIVE_DURATION_MS \<and>
    (\<exists>days hours minutes seconds.
       remaining_parts (Num (e - now)) = (Num days, Num hours, Num minutes, Num seconds) \<and>
       timerText (getEventStatus P now d) =
         countdown_text (Num days, Num hours, Num minutes, Num seconds) \<and>
       0 \<le> days \<and> 0 \<le> hours \<and> hours \<le> 23 \<and> 0 \<le> minutes \<and> minutes \<le> 59 \<and>
       0 \<le> seconds \<and> seconds \<le> 59 \<and>
       days * 86400 + hours * 3600 + minutes * 60 + seconds = (e - now) div 1000)"
proof -
  let ?x = "e - now"
  from assms have up: "?x > LIVE_THRESHOLD_MS" and le: "now \<le> e + LIVE_DURATION_MS"
    by (simp_all add: status_getEventStatus split: if_splits)
  then have pos: "0 \<le> ?x" by (simp add: LIVE_THRESHOLD_MS_def)
  have parts: "remaining_parts (Num ?x) =
     (Num (?x div 86400000), Num (?x mod 86400000 div 3600000),
      Num (?x mod 3600000 div 60000), Num (?x mod 60000 div 1000))"
    by (rule remaining_parts_Num [OF pos])
  have "timerText (getEventStatus P now d) = countdown_text (remaining_parts (Num ?x))"
    using assms up le by (simp add: getEventStatus_def Let_def)
  then have shown: "timerText (getEventStatus P now d) =
     countdown_text (Num (?x div 86400000), Num (?x mod 86400000 div 3600000),
      Num (?x mod 3600000 div 60000), Num (?x mod 60000 div 1000))"
    by (simp only: parts)
  have d0: "0 \<le> ?x div 86400000"
    using pos by (simp add: pos_imp_zdiv_nonneg_iff)
  from up le parts shown d0 parts_bounds [of ?x] reassemble [of ?x]
  show ?thesis by blast
qed

text \<open>
  One day, two hours, three minutes, four seconds and five milliseconds before
  the sample event the components are 1, 2, 3 and 4.
\<close>

theorem upcoming_breakdown_witness:
  "sample_Date_getTime sample_date = Num sample_start \<and>
   status (getEventStatus sample_Date_getTime (sample_start - 93784005) sample_date) = ''upcoming'' \<and>
   remaining_parts (Num (sample_start - (sample_start - 93784005))) = (Num 1, Num 2, Num 3, Num 4) \<and>
   timerText (getEventStatus sample_Date_getTime (sample_start - 93784005) sample_date) =
     countdown_text (Num 1, Num 2, Num 3, Num 4) \<and>
   (1 * 86400 + 2 * 3600 + 3 * 60 + 4 :: int) = (sample_start - (sample_start - 93784005)) div 1000"
proof -
  have h1: "sample_Date_getTime sample_date = Num sample_start"
    by (rule sample_parses)
  have h2: "status (getEventStatus sample_Date_getTime (sample_start - 93784005) sample_date)
      = ''upcoming''"
    by (simp add: status_getEventStatus sample_parses LIVE_DURATION_MS_def LIVE_THRESHOLD_MS_def)
  have parts: "remaining_parts (Num (sample_start - (sample_start - 93784005)))
      = (Num 1, Num 2, Num 3, Num 4)"
    by (simp add: remaining_parts_Num)
  from upcoming_breakdown [OF h1 h2] h1 h2 parts show ?thesis
    by auto
qed

text \<open>
  C6. For a fixed start instant the status never moves backwards in the order
  \<^verbatim>\<open>upcoming\<close>, \<^verbatim>\<open>live\<close>, \<^verbatim>\<open>passed\<close> as the clock advances.
\<close>

theorem status_monotone:
  "now1 \<le> now2 \<Longrightarrow>
   status_rank (status (getEventStatus P now1 d)) \<le>
   status_rank (status (getEventStatus P now2 d))"
  by (simp add: status_getEventStatus status_rank_def LIVE_DURATION_MS_def
      LIVE_THRESHOLD_MS_def split: number.splits)

theorem status_monotone_witness:
  "sample_start - 60000 \<le> sample_start + 25200000 \<and>
   status_rank (status (getEventStatus sample_Date_getTime (sample_start - 60000) sample_date))
   \<le> status_rank
       (status (getEventStatus sample_Date_getTime (sample_start + 25200000) sample_date))"
  using status_monotone [of "sample_start - 60000" "sample_start + 25200000"
      sample_Date_getTime sample_date]
  by simp

section \<open>The loop over the items\<close>

lemma callback_skip:
  "eventDate item = None \<or> eventDate item = Some [] \<Longrightarrow>
   forEach_callback P now c i item st = (item, st)"
  by (auto simp: forEach_callback_def split: prod.splits)

lemma callback_item_indep:
  "fst (forEach_callback P now c i item st) = fst (forEach_callback P now c i' item st')"
  by (simp add: forEach_callback_def Let_def split: prod.splits option.splits)

lemma forEach_items_Cons:
  "forEach_items P now clk i (x # xs) st =
     (fst (forEach_callback P now (clk i) i x st) #
        fst (forEach_items P now clk (Suc i) xs (snd (forEach_callback P now (clk i) i x st))),
      snd (forEach_items P now clk (Suc i) xs (snd (forEach_callback P now (clk i) i x st))))"
  by (simp add: case_prod_beta)

lemma forEach_items_append:
  "forEach_items P now clk i (xs @ ys) st =
     (case forEach_items P now clk i xs st of
        (xs', st1) \<Rightarrow>
          (case forEach_items P now clk (i + length xs) ys st1 of
             (ys', st2) \<Rightarrow> (xs' @ ys', st2)))"
  by (induction xs arbitrary: i st) (simp_all add: case_prod_beta)

lemma length_forEach_items:
  "length (fst (forEach_items P now clk i xs st)) = length xs"
  by (induction xs arbitrary: i st) (simp_all add: case_prod_beta)

lemma nth_forEach_items:
  "j < length xs \<Longrightarrow>
   fst (forEach_items P now clk i xs st) ! j =
   fst (forEach_callback P now (clk (i + j)) (i + j) (xs ! j) (None, []))"
proof (induction xs arbitrary: i j st)
  case Nil
  then show ?case by simp
next
  case (Cons x xs)
  show ?case
  proof (cases j)
    case 0
    then show ?thesis
      using callback_item_indep [of P now "clk i" i x st i "(None, [])"]
      by (simp add: forEach_items_Cons del: forEach_items.simps)
  next
    case (Suc k)
    with Cons.prems have "k < length xs" by simp
    from Cons.IH [OF this, of "Suc i"] Suc show ?thesis
      by (simp add: forEach_items_Cons del: forEach_items.simps)
  qed
qed

lemma callback_first_kept:
  "fst (snd (forEach_callback P now c i item (Some k, els))) = Some k"
  by (simp add: forEach_callback_def Let_def split: option.splits)

lemma callback_first_None:
  "fst (snd (forEach_callback P now c i item (None, els))) =
     (if classified_live P c item then Some i else None)"
  by (simp add: forEach_callback_def classified_live_def Let_def split: option.splits)

lemma first_kept:
  "fst (snd (forEach_items P now clk i xs (Some k, els))) = Some k"
proof (induction xs arbitrary: i els)
  case Nil
  then show ?case by simp
next
  case (Cons x xs)
  obtain x' f e where cb: "forEach_callback P now (clk i) i x (Some k, els) = (x', f, e)"
    by (cases "forEach_callback P now (clk i) i x (Some k, els)") auto
  with callback_first_kept [of P now "clk i" i x k els] have "f = Some k" by simp
  with cb Cons.IH [of "Suc i" e] show ?case
    by (simp add: forEach_items_Cons del: forEach_items.simps)
qed

lemma first_none_live:
  "(\<forall>j<length xs. \<not> classified_live P (clk (i + j)) (xs ! j)) \<Longrightarrow>
   fst (snd (forEach_items P now clk i xs (None, els))) = None"
proof (induction xs arbitrary: i els)
  case Nil
  then show ?case by simp
next
  case (Cons x xs)
  from Cons.prems have nl: "\<not> classified_live P (clk i) x" by force
  obtain x' f e where cb: "forEach_callback P now (clk i) i x (None, els) = (x', f, e)"
    by (cases "forEach_callback P now (clk i) i x (None, els)") auto
  with callback_first_None [of P now "clk i" i x els] nl have f: "f = None" by simp
  have "\<forall>j<length xs. \<not> classified_live P (clk (Suc i + j)) (xs ! j)"
    using Cons.prems by force
  from Cons.IH [OF this, of e] cb f show ?case
    by (simp add: forEach_items_Cons del: forEach_items.simps)
qed

lemma first_found:
  "m < length xs \<Longrightarrow> classified_live P (clk (i + m)) (xs ! m) \<Longrightarrow>
   (\<forall>j<m. \<not> classified_live P (clk (i + j)) (xs ! j)) \<Longrightarrow>
   fst (snd (forEach_items P now clk i xs (None, els))) = Some (i + m)"
proof (induction xs arbitrary: i m els)
  case Nil
  then show ?case by simp
next
  case (Cons x xs)
  obtain x' f e where cb: "forEach_callback P now (clk i) i x (None, els) = (x', f, e)"
    by (cases "forEach_callback P now (clk i) i x (None, els)") auto
  show ?case
  proof (cases m)
    case 0
    with Cons.prems have "classified_live P (clk i) x" by simp
    with callback_first_None [of P now "clk i" i x els] cb have "f = Some i" by simp
    with cb first_kept [of P now clk "Suc i" xs i e] 0 show ?thesis
      by (simp add: forEach_items_Cons del: forEach_items.simps)
  next
    case (Suc k)
    with Cons.prems have "\<not> classified_live P (clk i) x" by force
    with callback_first_None [of P now "clk i" i x els] cb have f: "f = None" by simp
    have k: "k < length xs" using Cons.prems Suc by simp
    have lk: "classified_live P (clk (Suc i + k)) (xs ! k)" using Cons.prems Suc by simp
    have nk: "\<forall>j<k. \<not> classified_live P (clk (Suc i + j)) (xs ! j)"
      using Cons.prems(3) Suc by force
    from Cons.IH [OF k lk nk, of e] cb f Suc show ?thesis
      by (simp add: forEach_items_Cons del: forEach_items.simps)
  qed
qed

lemma callback_keeps:
  "active (fst (forEach_callback P now c i item st)) = active item"
  "maxHeight (fst (forEach_callback P now c i item st)) = maxHeight item"
  "rotate_180 (fst (forEach_callback P now c i item st)) = rotate_180 item"
  "scrollHeight (fst (forEach_callback P now c i item st)) = scrollHeight item"
  by (simp_all add: forEach_callback_def Let_def split: option.splits prod.splits)

lemma updateAccordionHeaders_fst:
  "fst (updateAccordionHeaders P now clk doc) =
     fst (snd (forEach_items P now clk 0 (items doc) (None, countdowns doc)))"
  by (simp add: updateAccordionHeaders_def case_prod_beta)

lemma updateAccordionHeaders_items:
  "items (snd (updateAccordionHeaders P now clk doc)) =
     fst (forEach_items P now clk 0 (items doc) (None, countdowns doc))"
  by (simp add: updateAccordionHeaders_def case_prod_beta)

lemma updateAccordionHeaders_scrolled:
  "scrolled (snd (updateAccordionHeaders P now clk doc)) = scrolled doc"
  by (simp add: updateAccordionHeaders_def case_prod_beta)

lemma updateAccordionHeaders_length:
  "length (items (snd (updateAccordionHeaders P now clk doc))) = length (items doc)"
  by (simp add: updateAccordionHeaders_items length_forEach_items)

lemma updateAccordionHeaders_nth:
  "j < length (items doc) \<Longrightarrow>
   items (snd (updateAccordionHeaders P now clk doc)) ! j =
     fst (forEach_callback P now (clk j) j (items doc ! j) (None, []))"
  using nth_forEach_items [of j "items doc" P now clk 0 "(None, countdowns doc)"]
  by (simp add: updateAccordionHeaders_items)

lemma updateAccordionHeaders_keeps:
  assumes "j < length (items doc)"
  shows "active (items (snd (updateAccordionHeaders P now clk doc)) ! j) = active (items doc ! j)"
    and "maxHeight (items (snd (updateAccordionHeaders P now clk doc)) ! j) = maxHeight (items doc ! j)"
    and "rotate_180 (items (snd (updateAccordionHeaders P now clk doc)) ! j) = rotate_180 (items doc ! j)"
    and "scrollHeight (items (snd (updateAccordionHeaders P now clk doc)) ! j) = scrollHeight (items doc ! j)"
  using assms by (simp_all add: updateAccordionHeaders_nth callback_keeps)

lemma toggleAccordion_force:
  assumes "m < length (items doc)"
  shows "length (items (toggleAccordion doc m True)) = length (items doc)"
    and "j < length (items doc) \<Longrightarrow> active (items (toggleAccordion doc m True) ! j) = (j = m)"
    and "scrolled (toggleAccordion doc m True) = scrolled doc @ [m]"
    and "maxHeight (items (toggleAccordion doc m True) ! m) =
           Some (js_String (Num (scrollHeight (items doc ! m) + 30)) @ ''px'')"
  using assms
  by (simp_all add: toggleAccordion_def Let_def nth_list_update close_item_def)

lemma isTemporarilyLive_iff:
  "isTemporarilyLive (P d) (Num now) = (status (getEventStatus P now d) = ''live'')"
  by (cases "P d") (auto simp: isTemporarilyLive_def status_getEventStatus)

lemma live_event_class:
  "(''live_event'' \<in> set (classList (update_statusBox r b))) = (status r = ''live'')"
  by (simp add: update_statusBox_def Let_def classList_remove_def classList_add_def)


text \<open>For a passed event the countdown element is left with the text it had.\<close>

lemma update_countdown_passed:
  "status r = ''passed'' \<Longrightarrow> update_countdown r d els = els"
  by (simp add: update_countdown_def split: option.splits)

section \<open>The presentation driver\<close>

text \<open>
  C8 as stated fails for an unparseable start instant: the guard of the callback
  tests the attribute string only, so a non-empty string the date parser rejects
  is passed to \<^verbatim>\<open>getEventStatus\<close>; every comparison with \<open>NaN\<close> is false, the
  status is \<^verbatim>\<open>upcoming\<close>, and the status box receives a countdown of
  \<^verbatim>\<open>NaN:NaN:NaN\<close> and the class \<^verbatim>\<open>upcoming_event\<close>.
\<close>

theorem unparseable_not_skipped_counterexample:
  "eventDate (items unparseable_page ! 0) = Some ''soon'' \<and>
   sample_Date_getTime ''soon'' = NaN \<and>
   statusBoxes (items unparseable_page ! 0) =
     [\<lparr>innerHTML = [], classList = [''status-box'']\<rparr>] \<and>
   statusBoxes (items (snd (updateAccordionHeaders sample_Date_getTime (sample_start + 1000)
       sample_clock unparseable_page)) ! 0) =
     [\<lparr>innerHTML = text_remaining @ span_open @ ''NaN:NaN:NaN</span>'',
       classList = [''status-box'', ''upcoming_event'']\<rparr>]"
  by code_simp


text \<open>
  C8 (amended). On every tick, an item whose start-instant attribute is missing
  or empty is skipped: the item is left as it was, \<^verbatim>\<open>firstLiveEventItem\<close> and
  the countdown elements pass through unchanged, and the loop goes on: the items
  before it and after it are processed as they would be on their own.
\<close>

theorem skipped_item:
  assumes "items doc = pre @ item # rest"
    and "eventDate item = None \<or> eventDate item = Some []"
  shows "updateAccordionHeaders P now clk doc =
     (case forEach_items P now clk 0 pre (None, countdowns doc) of
        (pre', st1) \<Rightarrow>
          (case forEach_items P now clk (Suc (length pre)) rest st1 of
             (rest', firstLiveEventItem, els) \<Rightarrow>
               (firstLiveEventItem, doc\<lparr>items := pre' @ item # rest', countdowns := els\<rparr>)))"
  using assms(1) callback_skip [OF assms(2)]
  by (simp add: updateAccordionHeaders_def forEach_items_append case_prod_beta)

theorem skipped_item_witness:
  "items sample_page =
     [] @ sample_item None # [sample_item (Some sample_date), sample_item (Some sample_date)] \<and>
   (eventDate (sample_item None) = None \<or> eventDate (sample_item None) = Some []) \<and>
   items (snd (updateAccordionHeaders sample_Date_getTime (sample_start + 1000) sample_clock
     sample_page)) ! 0 = sample_item None \<and>
   map isLive (items (snd (updateAccordionHeaders sample_Date_getTime (sample_start + 1000)
     sample_clock sample_page))) = [None, Some ''true'', Some ''true'']"
proof -
  have h1: "items sample_page =
     [] @ sample_item None # [sample_item (Some sample_date), sample_item (Some sample_date)]"
    by (simp add: sample_page_def)
  have h2: "eventDate (sample_item None) = None \<or> eventDate (sample_item None) = Some []"
    by (simp add: sample_item_def)
  have r: "forEach_items sample_Date_getTime (sample_start + 1000) sample_clock (Suc 0)
       [sample_item (Some sample_date), sample_item (Some sample_date)]
       (None, countdowns sample_page) =
     ([(sample_item (Some sample_date))\<lparr>isLive := Some ''true'',
          statusBoxes := [\<lparr>innerHTML = text_live, classList = [''status-box'', ''live_event'']\<rparr>]\<rparr>,
       (sample_item (Some sample_date))\<lparr>isLive := Some ''true'',
          statusBoxes := [\<lparr>innerHTML = text_live, classList = [''status-box'', ''live_event'']\<rparr>]\<rparr>],
      Some 1, [(countdown_id sample_date, text_live @ ''!'')])"
    by code_simp
  have h3: "isLive (sample_item None) = None"
    by (simp add: sample_item_def)
  from skipped_item [OF h1 h2, of sample_Date_getTime "sample_start + 1000" sample_clock]
    h1 h2 h3
  show ?thesis
    by (simp add: r del: forEach_items.simps(2))
qed


text \<open>
  C9. On initial load, when some event is classified live, the first such item
  in document order is the one that is opened (its content height is set), it is
  the only active item afterwards, and it is the one asked to scroll into view; when no event is
  classified live, the active flags, the content heights and the scroll requests
  are as they were.
\<close>

theorem first_live_opened:
  "(\<forall>m<length (items doc).
      classified_live P (clk m) (items doc ! m) \<longrightarrow>
      (\<forall>j<m. \<not> classified_live P (clk j) (items doc ! j)) \<longrightarrow>
      length (items (onLoad P now clk doc)) = length (items doc) \<and>
      (\<forall>j<length (items doc). active (items (onLoad P now clk doc) ! j) = (j = m)) \<and>
      maxHeight (items (onLoad P now clk doc) ! m) =
        Some (js_String (Num (scrollHeight (items doc ! m) + 30)) @ ''px'') \<and>
      scrolled (onLoad P now clk doc) = scrolled doc @ [m]) \<and>
   ((\<forall>j<length (items doc). \<not> classified_live P (clk j) (items doc ! j)) \<longrightarrow>
      map active (items (onLoad P now clk doc)) = map active (items doc) \<and>
      map maxHeight (items (onLoad P now clk doc)) = map maxHeight (items doc) \<and>
      scrolled (onLoad P now clk doc) = scrolled doc)"
proof (intro conjI allI impI)
  fix m
  assume m: "m < length (items doc)"
    and live: "classified_live P (clk m) (items doc ! m)"
    and first: "\<forall>j<m. \<not> classified_live P (clk j) (items doc ! j)"
  let ?u = "updateAccordionHeaders P now clk doc"
  have "fst ?u = Some m"
    using first_found [of m "items doc" P clk 0 now "countdowns doc"] m live first
    by (simp add: updateAccordionHeaders_fst)
  then have ol: "onLoad P now clk doc = toggleAccordion (snd ?u) m True"
    by (simp add: onLoad_def case_prod_beta)
  have m': "m < length (items (snd ?u))"
    using m by (simp add: updateAccordionHeaders_length)
  show "length (items (onLoad P now clk doc)) = length (items doc)"
    using toggleAccordion_force(1) [OF m'] by (simp add: ol updateAccordionHeaders_length)
  show "scrolled (onLoad P now clk doc) = scrolled doc @ [m]"
    using toggleAccordion_force(3) [OF m'] by (simp add: ol updateAccordionHeaders_scrolled)
  show "maxHeight (items (onLoad P now clk doc) ! m) =
      Some (js_String (Num (scrollHeight (items doc ! m) + 30)) @ ''px'')"
    using toggleAccordion_force(4) [OF m'] m by (simp add: ol updateAccordionHeaders_keeps)
  fix j
  assume "j < length (items doc)"
  then have "j < length (items (snd ?u))" by (simp add: updateAccordionHeaders_length)
  from toggleAccordion_force(2) [OF m' this]
  show "active (items (onLoad P now clk doc) ! j) = (j = m)" by (simp add: ol)
next
  assume none: "\<forall>j<length (items doc). \<not> classified_live P (clk j) (items doc ! j)"
  let ?u = "updateAccordionHeaders P now clk doc"
  have "fst ?u = None"
    using first_none_live [of "items doc" P clk 0 now "countdowns doc"] none
    by (simp add: updateAccordionHeaders_fst)
  then have ol: "onLoad P now clk doc = snd ?u"
    by (simp add: onLoad_def case_prod_beta)
  show "map active (items (onLoad P now clk doc)) = map active (items doc)"
    unfolding ol
    by (rule nth_equalityI) (simp_all add: updateAccordionHeaders_length updateAccordionHeaders_keeps)
  show "map maxHeight (items (onLoad P now clk doc)) = map maxHeight (items doc)"
    unfolding ol
    by (rule nth_equalityI) (simp_all add: updateAccordionHeaders_length updateAccordionHeaders_keeps)
  show "scrolled (onLoad P now clk doc) = scrolled doc"
    unfolding ol by (rule updateAccordionHeaders_scrolled)
qed

theorem first_live_opened_witness:
  "classified_live sample_Date_getTime (sample_clock 1) (items sample_page ! 1) \<and>
   \<not> classified_live sample_Date_getTime (sample_clock 0) (items sample_page ! 0) \<and>
   map active (items (onLoad sample_Date_getTime (sample_start + 1000) sample_clock
       sample_page)) = [False, True, False] \<and>
   scrolled (onLoad sample_Date_getTime (sample_start + 1000) sample_clock sample_page) = [1] \<and>
   \<not> classified_live sample_Date_getTime (sample_clock 0) (items unparseable_page ! 0) \<and>
   map active (items (onLoad sample_Date_getTime (sample_start + 1000) sample_clock
       unparseable_page)) = [False] \<and>
   scrolled (onLoad sample_Date_getTime (sample_start + 1000) sample_clock unparseable_page) = []"
proof -
  let ?opened = "onLoad sample_Date_getTime (sample_start + 1000) sample_clock sample_page"
  have len: "length (items sample_page) = 3" "scrolled sample_page = []"
    by (simp_all add: sample_page_def)
  have l1: "classified_live sample_Date_getTime (sample_clock 1) (items sample_page ! 1)"
    by code_simp
  have l0: "\<not> classified_live sample_Date_getTime (sample_clock 0) (items sample_page ! 0)"
    by code_simp
  then have first:
    "\<forall>j<1. \<not> classified_live sample_Date_getTime (sample_clock j) (items sample_page ! j)"
    by simp
  have u: "length (items unparseable_page) = 1" "map active (items unparseable_page) = [False]"
    "scrolled unparseable_page = []"
    by (simp_all add: unparseable_page_def sample_item_def)
  have u0: "\<not> classified_live sample_Date_getTime (sample_clock 0) (items unparseable_page ! 0)"
    by code_simp
  then have none: "\<forall>j<length (items unparseable_page).
      \<not> classified_live sample_Date_getTime (sample_clock j) (items unparseable_page ! j)"
    by (simp add: u)
  from first_live_opened [of sample_page sample_Date_getTime sample_clock "sample_start + 1000",
      THEN conjunct1, THEN spec, of 1]
    l1 first len
  have a: "length (items ?opened) = 3 \<and>
     (\<forall>j<3. active (items ?opened ! j) = (j = 1)) \<and> scrolled ?opened = [1]"
    by simp
  then obtain x y z where xyz: "items ?opened = [x, y, z]"
    by (auto simp: length_Suc_conv numeral_3_eq_3)
  from a have "active (items ?opened ! 0) = (0 = (1::nat))"
    "active (items ?opened ! 1) = (1 = (1::nat))" "active (items ?opened ! 2) = (2 = (1::nat))"
    by simp_all
  then have act: "map active (items ?opened) = [False, True, False]"
    by (simp add: xyz)
  from first_live_opened [of unparseable_page sample_Date_getTime sample_clock
      "sample_start + 1000", THEN conjunct2]
    none u
  have b: "map active (items (onLoad sample_Date_getTime (sample_start + 1000) sample_clock
       unparseable_page)) = [False] \<and>
   scrolled (onLoad sample_Date_getTime (sample_start + 1000) sample_clock unparseable_page) = []"
    by simp
  from a act b l1 l0 u0 show ?thesis by blast
qed

text \<open>
  C10 as stated fails in its second half. \<^verbatim>\<open>updateAccordionHeaders\<close> reads the
  clock once for \<^verbatim>\<open>isTemporarilyLive\<close>, and each call of \<^verbatim>\<open>getEventStatus\<close>
  reads it again. When the first reading is one millisecond before the live
  threshold and the item's reading is at the threshold, \<^verbatim>\<open>data-is-live\<close> is set
  to \<^verbatim>\<open>false\<close> while the status box shows the live text and carries the
  class \<^verbatim>\<open>live_event\<close>.
\<close>

theorem isLive_two_readings_counterexample:
  "eventDate (items sample_page ! 1) = Some sample_date \<and>
   isLive (items (snd (updateAccordionHeaders sample_Date_getTime
      (sample_start - LIVE_THRESHOLD_MS - 1) threshold_clock sample_page)) ! 1) = Some ''false'' \<and>
   statusBoxes (items (snd (updateAccordionHeaders sample_Date_getTime
      (sample_start - LIVE_THRESHOLD_MS - 1) threshold_clock sample_page)) ! 1) =
     [\<lparr>innerHTML = text_live, classList = [''status-box'', ''live_event'']\<rparr>]"
  by code_simp

text \<open>
  C10 (amended). The test \<^verbatim>\<open>isTemporarilyLive\<close> is equivalent to
  \<^verbatim>\<open>getEventStatus\<close> returning \<^verbatim>\<open>live\<close> at the same clock value; hence
  \<^verbatim>\<open>data-is-live\<close> is set to \<^verbatim>\<open>true\<close> exactly when the event is live at the
  clock value \<^verbatim>\<open>updateAccordionHeaders\<close> read on entry. The item's status boxes
  carry the class \<^verbatim>\<open>live_event\<close> exactly when the event is live at the clock
  value read by the item's own call of \<^verbatim>\<open>getEventStatus\<close>; when the two
  readings are equal, \<^verbatim>\<open>data-is-live\<close> is \<^verbatim>\<open>true\<close> exactly when the status
  boxes show the event as live.
\<close>

theorem isLive_iff_live_at_now:
  assumes "j < length (items doc)" and "eventDate (items doc ! j) = Some d" and "d \<noteq> []"
  shows "isTemporarilyLive (P d) (Num now) = (status (getEventStatus P now d) = ''live'') \<and>
     isLive (items (snd (updateAccordionHeaders P now clk doc)) ! j) =
       Some (if status (getEventStatus P now d) = ''live'' then ''true'' else ''false'') \<and>
     (\<forall>b \<in> set (statusBoxes (items (snd (updateAccordionHeaders P now clk doc)) ! j)).
        (''live_event'' \<in> set (classList b)) =
        (status (getEventStatus P (clk j) d) = ''live'')) \<and>
     (clk j = now \<longrightarrow>
      (\<forall>b \<in> set (statusBoxes (items (snd (updateAccordionHeaders P now clk doc)) ! j)).
        (''live_event'' \<in> set (classList b)) =
        (isLive (items (snd (updateAccordionHeaders P now clk doc)) ! j) = Some ''true'')))"
proof -
  let ?r = "getEventStatus P (clk j) d"
  have item: "items (snd (updateAccordionHeaders P now clk doc)) ! j =
      (items doc ! j)\<lparr>isLive :=
          Some (if status (getEventStatus P now d) = ''live'' then ''true'' else ''false''),
        statusBoxes := map (update_statusBox ?r) (statusBoxes (items doc ! j))\<rparr>"
    using assms
    by (simp add: updateAccordionHeaders_nth forEach_callback_def Let_def isTemporarilyLive_iff)
  show ?thesis
    by (auto simp: item isTemporarilyLive_iff live_event_class)
qed

theorem isLive_iff_live_at_now_witness:
  "(1::nat) < length (items sample_page) \<and>
   eventDate (items sample_page ! 1) = Some sample_date \<and> sample_date \<noteq> [] \<and>
   sample_clock 1 = sample_start + 1000 \<and>
   isTemporarilyLive (sample_Date_getTime sample_date) (Num (sample_start + 1000)) \<and>
   status (getEventStatus sample_Date_getTime (sample_start + 1000) sample_date) = ''live'' \<and>
   isLive (items (snd (updateAccordionHeaders sample_Date_getTime (sample_start + 1000)
      sample_clock sample_page)) ! 1) = Some ''true'' \<and>
   ''live_event'' \<in> set (classList (statusBoxes (items (snd (updateAccordionHeaders
      sample_Date_getTime (sample_start + 1000) sample_clock sample_page)) ! 1) ! 0))"
proof -
  have h1: "(1::nat) < length (items sample_page)" by (simp add: sample_page_def)
  have h2: "eventDate (items sample_page ! 1) = Some sample_date"
    by (simp add: sample_page_def sample_item_def)
  have h3: "sample_date \<noteq> []" by (simp add: sample_date_def)
  have h4: "sample_clock 1 = sample_start + 1000" by (simp add: sample_clock_def)
  have live: "status (getEventStatus sample_Date_getTime (sample_start + 1000) sample_date) = ''live''"
    by (simp add: status_getEventStatus sample_parses LIVE_DURATION_MS_def LIVE_THRESHOLD_MS_def)
  have box: "statusBoxes (items (snd (updateAccordionHeaders sample_Date_getTime
      (sample_start + 1000) sample_clock sample_page)) ! 1) ! 0 \<in>
    set (statusBoxes (items (snd (updateAccordionHeaders sample_Date_getTime
      (sample_start + 1000) sample_clock sample_page)) ! 1))"
    by code_simp
  from isLive_iff_live_at_now [OF h1 h2 h3, of sample_Date_getTime "sample_start + 1000"
      sample_clock] h1 h2 h3 h4 live box
  show ?thesis by simp
qed

end
